theory Spec2Isabelle
  imports Main "HOL-Library.Word"
begin

section \<open>The international (European) verification path of the CoronaCheck mobile core\<close>

text \<open>
  A shallow embedding of \<^verbatim>\<open>verifier_european.go\<close>: the metadata validation of a
  health certificate, the business rules for the vaccination, test and recovery
  statements of a DCC, and the construction of the minimised verification details.

  Conventions of the embedding.
  \<^item> A Go \<^verbatim>\<open>string\<close> is a sequence of bytes: \<^typ>\<open>string\<close>, whose elements are bytes.
    \<^verbatim>\<open>len\<close> counts bytes and \<^verbatim>\<open>s[0:1]\<close> is the first byte.
  \<^item> Go's \<^verbatim>\<open>int\<close> and \<^verbatim>\<open>int64\<close>, and \<^verbatim>\<open>time.Duration\<close> (an \<^verbatim>\<open>int64\<close> of
    nanoseconds) are 64-bit words, read as two's complement by \<^const>\<open>sint\<close>;
    multiplication wraps around as it does in Go (\<^verbatim>\<open>int\<close> is taken at its 64-bit width).
  \<^item> A \<^verbatim>\<open>time.Time\<close> is the instant it denotes: the number of nanoseconds since
    January 1 of year 1, 00:00:00 UTC, which is the zero point of Go's own representation.
  \<^item> An \<^verbatim>\<open>error\<close> result is an \<open>error option\<close>: \<open>None\<close> is Go's \<^verbatim>\<open>nil\<close>. A function
    with several results returns the tuple of them, in the order of the source.
  \<^item> The structures of the package \<^verbatim>\<open>hcertcommon\<close> are records of the fields this file
    reads; the pointers to them are taken to be non-nil. A field name that several
    structures share carries a prefix (\<open>vacc_\<close>, \<open>test_\<close>, \<open>rec_\<close>, \<open>hcert_\<close>).
  \<^item> The collaborators outside this repository, \<^verbatim>\<open>time.Parse\<close> and the signature verifier
    \<^verbatim>\<open>europeanVerifier.VerifyQREncoded\<close>, are parameters of the functions that call them,
    so that every theorem holds for whatever they compute.
\<close>

subsection \<open>Constants\<close>

definition HCERT_SPECIMEN_EXPIRATION_TIME :: "64 word" where
  "HCERT_SPECIMEN_EXPIRATION_TIME = 42"

definition DISEASE_TARGETED_COVID_19 :: string where
  "DISEASE_TARGETED_COVID_19 = ''840539006''"

definition TEST_RESULT_NOT_DETECTED :: string where
  "TEST_RESULT_NOT_DETECTED = ''260415000''"

definition NL_COUNTRY_CODE :: string where
  "NL_COUNTRY_CODE = ''NL''"

definition YYYYMMDD_FORMAT :: string where
  "YYYYMMDD_FORMAT = ''2006-01-02''"

definition DOB_EMPTY_VALUE :: string where
  "DOB_EMPTY_VALUE = ''XX''"

text \<open>The layout \<^verbatim>\<open>time.RFC3339\<close> of Go's standard library.\<close>

definition RFC3339 :: string where
  "RFC3339 = ''2006-01-02T15:04:05Z07:00''"

subsection \<open>Time\<close>

type_synonym Time = int

type_synonym Duration = "64 word"

definition Hour :: Duration where
  "Hour = 3600000000000"

text \<open>
  \<^verbatim>\<open>t.Before(u)\<close> and \<^verbatim>\<open>t.After(u)\<close> compare instants.
\<close>

definition Before :: "Time \<Rightarrow> Time \<Rightarrow> bool" where
  "Before t u = (t < u)"

definition After :: "Time \<Rightarrow> Time \<Rightarrow> bool" where
  "After t u = (t > u)"

text \<open>
  \<^verbatim>\<open>t.Add(d)\<close> moves the instant by the signed duration. Go saturates the result at the
  ends of its range of seconds (an \<^verbatim>\<open>int64\<close>, some 292 billion years each way); the times
  added to in this file come from \<^verbatim>\<open>time.Parse\<close>, whose years have four digits, and a
  duration is less than 293 years long, so the sum is exact.
\<close>

definition Add :: "Time \<Rightarrow> Duration \<Rightarrow> Time" where
  "Add t d = t + sint d"

text \<open>
  \<^verbatim>\<open>time.Unix(sec, 0)\<close>: Go stores \<^verbatim>\<open>sec + unixToInternal\<close>, an \<^verbatim>\<open>int64\<close> sum, as the
  seconds since year 1.
\<close>

definition unixToInternal :: "64 word" where
  "unixToInternal = 62135596800"

definition Unix :: "64 word \<Rightarrow> Time" where
  "Unix sec = sint (sec + unixToInternal) * 1000000000"

text \<open>
  \<^verbatim>\<open>t.Truncate(d)\<close> rounds \<open>t\<close> down to a multiple of \<open>d\<close> since the zero time, and
  returns \<open>t\<close> unchanged when \<open>d \<le> 0\<close>. \<^verbatim>\<open>UTC()\<close> keeps the instant.
\<close>

definition Truncate :: "Time \<Rightarrow> Duration \<Rightarrow> Time" where
  "Truncate t d = (if sint d \<le> 0 then t else t - t mod sint d)"

definition UTC :: "Time \<Rightarrow> Time" where
  "UTC t = t"

subsection \<open>Errors\<close>

text \<open>
  \<^verbatim>\<open>errors.Errorf(format, args...)\<close> is kept as the format with its arguments;
  \<^verbatim>\<open>errors.WrapPrefix(err, prefix, 0)\<close> as the wrapped error with its prefix. An error
  of the signature verifier is opaque.
\<close>

datatype arg = Int64 "64 word" | Count nat | DurationString Duration

datatype error =
    Errorf string "arg list"
  | WrapPrefix error string
  | VerifierError string

subsection \<open>Data\<close>

record DCCName =
  StandardizedFamilyName :: string
  StandardizedGivenName :: string

record DCCVaccination =
  vacc_DiseaseTargeted :: string
  MedicinalProduct :: string
  DoseNumber :: "64 word"
  TotalSeriesOfDoses :: "64 word"
  DateOfVaccination :: string

record DCCTest =
  test_DiseaseTargeted :: string
  TypeOfTest :: string
  TestResult :: string
  DateTimeOfCollection :: string

record DCCRecovery =
  rec_DiseaseTargeted :: string
  DateOfFirstPositiveTest :: string
  CertificateValidFrom :: string
  CertificateValidUntil :: string

record DCC =
  DateOfBirth :: string
  Name :: DCCName
  Vaccinations :: "DCCVaccination list"
  Tests :: "DCCTest list"
  Recoveries :: "DCCRecovery list"

record HealthCertificate =
  Issuer :: string
  IssuedAt :: "64 word"
  ExpirationTime :: "64 word"
  hcert_DCC :: DCC

text \<open>
  Modelled from the spec: the structure \<^verbatim>\<open>europeanVerificationRules\<close>, declared outside
  the files at hand: the allowed vaccine products and test types, the vaccination validity
  delay in days, the test validity in hours, the recovery offsets in days.
\<close>

record europeanVerificationRules =
  TestAllowedTypes :: "string list"
  TestValidityHours :: "64 word"
  VaccinationValidityDelayDays :: "64 word"
  VaccineAllowedProducts :: "string list"
  RecoveryValidFromDays :: "64 word"
  RecoveryValidUntilDays :: "64 word"

text \<open>
  Modelled from the spec: the structure \<^verbatim>\<open>VerificationDetails\<close>, with the fields the
  test file fills in. A field that a Go literal leaves out is the empty string.
\<close>

record VerificationDetails =
  CredentialVersion :: string
  IsSpecimen :: string
  IssuerCountryCode :: string
  FirstNameInitial :: string
  LastNameInitial :: string
  BirthDay :: string
  BirthMonth :: string

subsection \<open>The date of birth\<close>

text \<open>\<^verbatim>\<open>\d\<close> of Go's regular expressions: an ASCII digit.\<close>

definition digit :: "char \<Rightarrow> bool" where
  "digit c = (c \<in> set ''0123456789'')"

text \<open>
  The regular expressions that the source uses: a literal byte, \<^verbatim>\<open>\d\<close>, a sequence,
  an alternative \<^verbatim>\<open>a|b\<close>, an option \<^verbatim>\<open>a?\<close> and a capturing group with its index (a
  group \<^verbatim>\<open>(?:a)\<close> that does not capture is \<open>a\<close> itself).
\<close>

datatype regexp =
    Lit char
  | Digit
  | Seq regexp regexp
  | Alt regexp regexp
  | Opt regexp
  | Group nat regexp

text \<open>
  Matching as Go's package \<^verbatim>\<open>regexp\<close> specifies it, leftmost-first: the expression is
  matched at the head of the text and the continuation decides on the rest; of two
  alternatives the left one is preferred, and an option prefers to match. A group records
  the bytes that it has matched. The result is the list of the groups, or \<open>None\<close>
  without a match. Go matches code points of UTF-8; every atom of the expression below
  is an ASCII byte or an ASCII digit, which no byte of a longer code point matches, so
  that matching byte by byte gives the same result.
\<close>

primrec match_then ::
  "regexp \<Rightarrow> (string \<Rightarrow> string list \<Rightarrow> string list option) \<Rightarrow> string \<Rightarrow> string list
     \<Rightarrow> string list option" where
  "match_then (Lit c) k s groups =
     (case s of [] \<Rightarrow> None | x # xs \<Rightarrow> if x = c then k xs groups else None)"
| "match_then Digit k s groups =
     (case s of [] \<Rightarrow> None | x # xs \<Rightarrow> if digit x then k xs groups else None)"
| "match_then (Seq a b) k s groups = match_then a (match_then b k) s groups"
| "match_then (Alt a b) k s groups =
     (case match_then a k s groups of Some r \<Rightarrow> Some r | None \<Rightarrow> match_then b k s groups)"
| "match_then (Opt a) k s groups =
     (case match_then a k s groups of Some r \<Rightarrow> Some r | None \<Rightarrow> k s groups)"
| "match_then (Group i a) k s groups =
     match_then a
       (\<lambda>rest groups'. k rest (groups'[i := take (length s - length rest) s])) s groups"

text \<open>The anchor \<^verbatim>\<open>$\<close>: the end of the text (the expression has no flag \<^verbatim>\<open>m\<close>).\<close>

definition at_end :: "string \<Rightarrow> string list \<Rightarrow> string list option" where
  "at_end rest groups = (if rest = [] then Some groups else None)"

text \<open>
  \<^verbatim>\<open>(?:((?:19|20)\d\d)(?:-(\d\d)(?:-(\d\d))?)?)?\<close>, the expression between the anchors;
  the groups 1, 2 and 3 of Go are the groups 0, 1 and 2 here.
\<close>

definition dateOfBirthRegex :: regexp where
  "dateOfBirthRegex =
     Opt (Seq (Group 0 (Seq (Alt (Seq (Lit CHR ''1'') (Lit CHR ''9''))
                                 (Seq (Lit CHR ''2'') (Lit CHR ''0'')))
                            (Seq Digit Digit)))
              (Opt (Seq (Seq (Lit CHR ''-'') (Group 1 (Seq Digit Digit)))
                        (Opt (Seq (Lit CHR ''-'') (Group 2 (Seq Digit Digit)))))))"

text \<open>
  \<^verbatim>\<open>dateOfBirthRegex.FindStringSubmatch(value)\<close>: the whole match, which the anchors
  \<^verbatim>\<open>^\<close> and \<^verbatim>\<open>$\<close> make the whole value, followed by the three groups, a group that
  took no part being the empty string; the empty list (Go's \<^verbatim>\<open>nil\<close>) when the value
  does not match.
\<close>

definition FindStringSubmatch :: "string \<Rightarrow> string list" where
  "FindStringSubmatch v =
     (case match_then dateOfBirthRegex at_end v [[], [], []] of
        None \<Rightarrow> []
      | Some groups \<Rightarrow> v # groups)"

definition parseDateOfBirth :: "string \<Rightarrow> string \<times> string \<times> string \<times> error option" where
  "parseDateOfBirth v =
     (let res = FindStringSubmatch v in
      if length res \<noteq> 4 then ([], [], [], Some (Errorf ''Did not conform to regex'' []))
      else (res ! 1, res ! 2, res ! 3, None))"

definition validateDateOfBirth :: "string \<Rightarrow> error option" where
  "validateDateOfBirth dob =
     (case parseDateOfBirth dob of
        (_, _, _, Some err) \<Rightarrow> Some (WrapPrefix err ''Invalid date of birth'')
      | (_, _, _, None) \<Rightarrow> None)"

subsection \<open>Metadata of the health certificate\<close>

definition validateHcert :: "HealthCertificate \<Rightarrow> Time \<Rightarrow> bool \<times> error option" where
  "validateHcert hcert now =
     (if ExpirationTime hcert = HCERT_SPECIMEN_EXPIRATION_TIME then (True, None)
      else
        let issuedAt = Unix (IssuedAt hcert);
            expirationTime = Unix (ExpirationTime hcert)
        in
          if Before expirationTime issuedAt then
            (False, Some (Errorf ''Cannot be issued after it expires'' []))
          else if Before now issuedAt then
            (False, Some (Errorf ''Is issued before the current time'' []))
          else if Before expirationTime now then
            (False, Some (Errorf ''Is not valid anymore; was valid until %d''
                            [Int64 (ExpirationTime hcert)]))
          else (False, None))"

subsection \<open>Name and number of statements\<close>

definition validateName :: "DCCName \<Rightarrow> error option" where
  "validateName name =
     (if StandardizedFamilyName name = [] \<and> StandardizedGivenName name = [] then
        Some (Errorf ''Either the standardized family name or given name must be present'' [])
      else None)"

definition validateStatementAmount :: "DCC \<Rightarrow> error option" where
  "validateStatementAmount dcc =
     (let vaccAmount = length (Vaccinations dcc);
          testAmount = length (Tests dcc);
          recAmount = length (Recoveries dcc);
          totalAmount = vaccAmount + testAmount + recAmount
      in
        if totalAmount = 0 then
          Some (Errorf ''Contains no vaccination, test or recovery statements'' [])
        else if totalAmount > 1 then
          Some (Errorf
            ''Contains too many statements (%d vaccinations, %d tests and %d recoveries)''
            [Count vaccAmount, Count testAmount, Count recAmount])
        else None)"

subsection \<open>The statements\<close>

primrec containsString :: "string list \<Rightarrow> string \<Rightarrow> bool" where
  "containsString [] target = False"
| "containsString (elem # list) target = (if elem = target then True else containsString list target)"

text \<open>
  The first parameter of the three validators stands for \<^verbatim>\<open>time.Parse\<close>: given a layout
  and a value it returns the time parsed, or \<open>None\<close> where Go returns an error (the
  time returned beside an error is never read).
\<close>

definition validateVaccination ::
  "(string \<Rightarrow> string \<Rightarrow> Time option) \<Rightarrow> DCCVaccination \<Rightarrow> europeanVerificationRules \<Rightarrow> Time
     \<Rightarrow> error option" where
  "validateVaccination Parse vacc rules now =
     (if vacc_DiseaseTargeted vacc \<noteq> DISEASE_TARGETED_COVID_19 then
        Some (Errorf ''Disease targeted should be COVID-19'' [])
      else if \<not> containsString (VaccineAllowedProducts rules) (MedicinalProduct vacc) then
        Some (Errorf ''Medicinal product is not accepted'' [])
      else if sint (DoseNumber vacc) < sint (TotalSeriesOfDoses vacc) then
        Some (Errorf ''Dose number is smaller than the specified total amount of doses'' [])
      else (case Parse YYYYMMDD_FORMAT (DateOfVaccination vacc) of
          None \<Rightarrow> Some (Errorf ''Date of vaccination could not be parsed'' [])
        | Some dov \<Rightarrow>
            let nowDate = UTC (Truncate now (24 * Hour));
                vaccinationValidFrom = Add dov ((VaccinationValidityDelayDays rules * 24) * Hour)
            in
              if Before nowDate vaccinationValidFrom then
                Some (Errorf ''Date of vaccination is before the delayed validity date'' [])
              else None))"

definition validateTest ::
  "(string \<Rightarrow> string \<Rightarrow> Time option) \<Rightarrow> DCCTest \<Rightarrow> europeanVerificationRules \<Rightarrow> Time
     \<Rightarrow> error option" where
  "validateTest Parse test rules now =
     (if test_DiseaseTargeted test \<noteq> DISEASE_TARGETED_COVID_19 then
        Some (Errorf ''Disease targeted should be COVID-19'' [])
      else if \<not> containsString (TestAllowedTypes rules) (TypeOfTest test) then
        Some (Errorf ''Type is not allowed'' [])
      else if TestResult test \<noteq> TEST_RESULT_NOT_DETECTED then
        Some (Errorf ''Result should be negative (not detected)'' [])
      else (case Parse RFC3339 (DateTimeOfCollection test) of
          None \<Rightarrow> Some (Errorf ''Time of collection could not be parsed'' [])
        | Some doc \<Rightarrow>
            let testValidityHours = TestValidityHours rules;
                testValidityDuration = testValidityHours * Hour;
                testExpirationTime = Add doc testValidityDuration
            in
              if Before testExpirationTime now then
                Some (Errorf ''Time of collection is more than %s ago''
                        [DurationString testValidityDuration])
              else if Before now doc then
                Some (Errorf ''Time of collection is in the future'' [])
              else None))"

definition validateRecovery ::
  "(string \<Rightarrow> string \<Rightarrow> Time option) \<Rightarrow> DCCRecovery \<Rightarrow> europeanVerificationRules \<Rightarrow> Time
     \<Rightarrow> error option" where
  "validateRecovery Parse rec rules now =
     (if rec_DiseaseTargeted rec \<noteq> DISEASE_TARGETED_COVID_19 then
        Some (Errorf ''Disease targeted should be COVID-19'' [])
      else (case Parse YYYYMMDD_FORMAT (DateOfFirstPositiveTest rec) of
          None \<Rightarrow> Some (Errorf ''Date of first positive test could not be parsed'' [])
        | Some testDate \<Rightarrow>
            let validFromDays = RecoveryValidFromDays rules;
                validUntilDays = RecoveryValidUntilDays rules;
                validFrom = Add testDate ((validFromDays * 24) * Hour);
                validUntil = Add testDate ((validUntilDays * 24) * Hour);
                validFrom = (case Parse YYYYMMDD_FORMAT (CertificateValidFrom rec) of
                    Some specifiedValidFrom \<Rightarrow>
                      if After specifiedValidFrom validFrom then specifiedValidFrom else validFrom
                  | None \<Rightarrow> validFrom);
                validUntil = (case Parse YYYYMMDD_FORMAT (CertificateValidUntil rec) of
                    Some specifiedValidUntil \<Rightarrow>
                      if Before specifiedValidUntil validUntil then specifiedValidUntil
                      else validUntil
                  | None \<Rightarrow> validUntil)
            in
              if Before validUntil validFrom then
                Some (Errorf ''Valid until cannot be before valid from'' [])
              else if Before now validFrom then
                Some (Errorf ''Recovery is not yet valid'' [])
              else if Before validUntil now then
                Some (Errorf ''Recovery is not valid anymore'' [])
              else None))"

subsection \<open>The DCC\<close>

text \<open>
  A loop \<^verbatim>\<open>for _, x := range xs\<close> of \<^verbatim>\<open>validateDCC\<close>: the first statement that fails
  ends it, with the error under the prefix of the loop.
\<close>

primrec range_statements :: "('a \<Rightarrow> error option) \<Rightarrow> string \<Rightarrow> 'a list \<Rightarrow> error option" where
  "range_statements validate prefix [] = None"
| "range_statements validate prefix (x # xs) =
     (case validate x of
        Some err \<Rightarrow> Some (WrapPrefix err prefix)
      | None \<Rightarrow> range_statements validate prefix xs)"

definition validateDCC ::
  "(string \<Rightarrow> string \<Rightarrow> Time option) \<Rightarrow> DCC \<Rightarrow> europeanVerificationRules \<Rightarrow> Time
     \<Rightarrow> error option" where
  "validateDCC Parse dcc rules now =
     (case validateDateOfBirth (DateOfBirth dcc) of
        Some err \<Rightarrow> Some (WrapPrefix err ''Invalid date of birth'')
      | None \<Rightarrow>
     (case validateName (Name dcc) of
        Some err \<Rightarrow> Some (WrapPrefix err ''Invalid name'')
      | None \<Rightarrow>
     (case validateStatementAmount dcc of
        Some err \<Rightarrow> Some (WrapPrefix err ''Invalid statement amount'')
      | None \<Rightarrow>
     (case range_statements (\<lambda>vacc. validateVaccination Parse vacc rules now)
             ''Invalid vaccination statement'' (Vaccinations dcc) of
        Some err \<Rightarrow> Some err
      | None \<Rightarrow>
     (case range_statements (\<lambda>test. validateTest Parse test rules now)
             ''Invalid test statement'' (Tests dcc) of
        Some err \<Rightarrow> Some err
      | None \<Rightarrow>
        range_statements (\<lambda>rec. validateRecovery Parse rec rules now)
          ''Invalid recovery statement'' (Recoveries dcc))))))"

subsection \<open>The verification details\<close>

definition buildVerificationDetails ::
  "HealthCertificate \<Rightarrow> bool \<Rightarrow> VerificationDetails option \<times> error option" where
  "buildVerificationDetails hcert isSpecimen =
     (let isSpecimenStr = (if isSpecimen then ''1'' else ''0'') in
      case parseDateOfBirth (DateOfBirth (hcert_DCC hcert)) of
        (_, _, _, Some err) \<Rightarrow> (None, Some (WrapPrefix err ''Could not parse date of birth''))
      | (_, birthMonth, birthDay, None) \<Rightarrow>
          let birthMonth = (if birthMonth = [] then DOB_EMPTY_VALUE else birthMonth);
              birthDay = (if birthDay = [] then DOB_EMPTY_VALUE else birthDay);
              givenName = StandardizedGivenName (Name (hcert_DCC hcert));
              familyName = StandardizedFamilyName (Name (hcert_DCC hcert));
              firstNameInitial = (if length givenName > 0 then take 1 givenName else []);
              familyNameInitial = (if length familyName > 0 then take 1 familyName else [])
          in
            (Some \<lparr> CredentialVersion = ''1'',
                    IsSpecimen = isSpecimenStr,
                    IssuerCountryCode = [],
                    FirstNameInitial = firstNameInitial,
                    LastNameInitial = familyNameInitial,
                    BirthDay = birthDay,
                    BirthMonth = birthMonth \<rparr>, None))"

subsection \<open>The entry point of the international path\<close>

text \<open>
  The first parameter stands for \<^verbatim>\<open>europeanVerifier.VerifyQREncoded\<close>, which checks the
  signature and decodes the certificate, or fails.
\<close>

definition verifyEuropean ::
  "(8 word list \<Rightarrow> error + HealthCertificate) \<Rightarrow> (string \<Rightarrow> string \<Rightarrow> Time option)
     \<Rightarrow> 8 word list \<Rightarrow> europeanVerificationRules \<Rightarrow> Time
     \<Rightarrow> VerificationDetails option \<times> bool \<times> error option" where
  "verifyEuropean VerifyQREncoded Parse proofQREncoded rules now =
     (case VerifyQREncoded proofQREncoded of
        Inl err \<Rightarrow> (None, False, Some err)
      | Inr hcert \<Rightarrow>
          if Issuer hcert = NL_COUNTRY_CODE then (None, True, None)
          else (case validateHcert hcert now of
              (_, Some err) \<Rightarrow>
                (None, False, Some (WrapPrefix err ''Could not validate health certificate''))
            | (isSpecimen, None) \<Rightarrow>
                (case validateDCC Parse (hcert_DCC hcert) rules now of
                   Some err \<Rightarrow> (None, False, Some (WrapPrefix err ''Could not validate DCC''))
                 | None \<Rightarrow>
                     (case buildVerificationDetails hcert isSpecimen of
                        (_, Some err) \<Rightarrow> (None, False, Some err)
                      | (result, None) \<Rightarrow> (result, False, None)))))"

subsection \<open>The matches of the date of birth in closed form\<close>

text \<open>\<^verbatim>\<open>(?:19|20)\d\d\<close> on four bytes.\<close>

definition year_pat :: "char \<Rightarrow> char \<Rightarrow> char \<Rightarrow> char \<Rightarrow> bool" where
  "year_pat a b c d = (([a, b] = ''19'' \<or> [a, b] = ''20'') \<and> digit c \<and> digit d)"

text \<open>
  Every piece of the expression has a fixed width, so a match is empty, or the 4 bytes
  of a year, or the 7 bytes of a year and \<^verbatim>\<open>-dd\<close>, or the 10 bytes of a year and
  \<^verbatim>\<open>-dd-dd\<close>. This function lists the result by the length of the value; it is proved
  below to be what \<^const>\<open>FindStringSubmatch\<close> computes.
\<close>

fun submatch_by_length :: "string \<Rightarrow> string list" where
  "submatch_by_length [] = [[], [], [], []]"
| "submatch_by_length [a, b, c, d] =
     (if year_pat a b c d then [[a, b, c, d], [a, b, c, d], [], []] else [])"
| "submatch_by_length [a, b, c, d, h, m1, m2] =
     (if year_pat a b c d \<and> h = CHR ''-'' \<and> digit m1 \<and> digit m2
      then [[a, b, c, d, h, m1, m2], [a, b, c, d], [m1, m2], []] else [])"
| "submatch_by_length [a, b, c, d, h, m1, m2, h', d1, d2] =
     (if year_pat a b c d \<and> h = CHR ''-'' \<and> digit m1 \<and> digit m2
         \<and> h' = CHR ''-'' \<and> digit d1 \<and> digit d2
      then [[a, b, c, d, h, m1, m2, h', d1, d2], [a, b, c, d], [m1, m2], [d1, d2]] else [])"
| "submatch_by_length _ = []"

subsection \<open>The windows and shapes as the specification words them\<close>

text \<open>
  The specification's validity window of a test: from the collection time up to, but
  not including, the collection time plus the validity in hours.
\<close>

definition spec_test_window :: "Time \<Rightarrow> int \<Rightarrow> Time \<Rightarrow> bool" where
  "spec_test_window collectionTime validityHours now =
     (collectionTime \<le> now \<and> now < collectionTime + validityHours * 3600000000000)"

text \<open>
  The specification's validity window of a recovery: from the test date plus the
  valid-from days to the test date plus the valid-until days; a start given by the
  certificate replaces the start when it is later, an end given by the certificate
  replaces the end when it is earlier; the statement is valid unless the end precedes
  the start, or now precedes the start, or the end precedes now.
\<close>

definition spec_recovery_window ::
  "Time \<Rightarrow> int \<Rightarrow> int \<Rightarrow> Time option \<Rightarrow> Time option \<Rightarrow> Time \<times> Time" where
  "spec_recovery_window testDate validFromDays validUntilDays specifiedFrom specifiedUntil =
     (let from = testDate + validFromDays * 86400000000000;
          until = testDate + validUntilDays * 86400000000000
      in ((case specifiedFrom of Some t \<Rightarrow> if from < t then t else from | None \<Rightarrow> from),
          (case specifiedUntil of Some t \<Rightarrow> if t < until then t else until | None \<Rightarrow> until)))"

definition spec_recovery_valid :: "Time \<times> Time \<Rightarrow> Time \<Rightarrow> bool" where
  "spec_recovery_valid window now =
     (case window of (from, until) \<Rightarrow> \<not> (until < from \<or> now < from \<or> until < now))"

text \<open>
  The specification's shapes of a date of birth: empty, four digits, four digits and
  \<^verbatim>\<open>-dd\<close>, four digits and \<^verbatim>\<open>-dd-dd\<close>.
\<close>

definition spec_dob_shape :: "string \<Rightarrow> bool" where
  "spec_dob_shape v =
     (v = []
      \<or> (length v = 4 \<and> list_all digit v)
      \<or> (length v = 7 \<and> list_all digit (take 4 v) \<and> v ! 4 = CHR ''-''
           \<and> list_all digit (drop 5 v))
      \<or> (length v = 10 \<and> list_all digit (take 4 v) \<and> v ! 4 = CHR ''-''
           \<and> list_all digit (take 2 (drop 5 v)) \<and> v ! 7 = CHR ''-''
           \<and> list_all digit (drop 8 v)))"

text \<open>
  The instant of a second of the Unix era as the specification reads the fields
  \<^verbatim>\<open>issuedAt\<close> and \<^verbatim>\<open>expirationTime\<close>: that many seconds after January 1, 1970 UTC,
  counted in nanoseconds from the zero time, with no limit of 64 bits on the sum.
\<close>

definition epoch_instant :: "64 word \<Rightarrow> Time" where
  "epoch_instant sec = (sint sec + 62135596800) * 1000000000"

text \<open>
  The first character of a text in UTF-8, as the specification and the comment in
  \<^verbatim>\<open>buildVerificationDetails\<close> word the initial of a name: the bytes of the first code
  point, whose number the first byte tells. A byte that begins no well-formed code point
  counts alone, as in Go's decoder.
\<close>

definition utf8_width :: "char \<Rightarrow> nat" where
  "utf8_width c =
     (let b = (of_char c :: nat) in
      if b < 0x80 then 1
      else if 0xC2 \<le> b \<and> b \<le> 0xDF then 2
      else if 0xE0 \<le> b \<and> b \<le> 0xEF then 3
      else if 0xF0 \<le> b \<and> b \<le> 0xF4 then 4
      else 1)"

definition continuation :: "char \<Rightarrow> bool" where
  "continuation c = (0x80 \<le> (of_char c :: nat) \<and> (of_char c :: nat) \<le> 0xBF)"

definition first_character :: "string \<Rightarrow> string" where
  "first_character s =
     (case s of
        [] \<Rightarrow> []
      | c # cs \<Rightarrow>
          let w = utf8_width c in
          if w - 1 \<le> length cs \<and> list_all continuation (take (w - 1) cs) then take w s
          else [c])"

text \<open>An error names three counts when they are its arguments.\<close>

definition names_counts :: "error \<Rightarrow> nat \<Rightarrow> nat \<Rightarrow> nat \<Rightarrow> bool" where
  "names_counts err v t r =
     (case err of Errorf format args \<Rightarrow> args = [Count v, Count t, Count r] | _ \<Rightarrow> False)"

text \<open>Two ASCII digits, or the marker that stands for a part of the date left out.\<close>

definition two_digits_or_marker :: "string \<Rightarrow> bool" where
  "two_digits_or_marker s = (s = DOB_EMPTY_VALUE \<or> (length s = 2 \<and> list_all digit s))"

subsection \<open>Sample inputs\<close>

text \<open>
  The values of \<^verbatim>\<open>time.Parse\<close> at the dates of the examples below (midnight UTC of the
  day, and 10:00 UTC for the time of collection), and an error everywhere else.
\<close>

definition Parse_sample :: "string \<Rightarrow> string \<Rightarrow> Time option" where
  "Parse_sample layout v =
     (if layout = YYYYMMDD_FORMAT then
        map_of [(''2021-06-01'', Unix 1622505600), (''2021-06-20'', Unix 1624147200),
                (''2021-09-01'', Unix 1630454400)] v
      else if layout = RFC3339 then
        map_of [(''2021-06-01T10:00:00Z'', Unix 1622541600)] v
      else None)"

definition rules_sample :: europeanVerificationRules where
  "rules_sample = \<lparr> TestAllowedTypes = [''LP6464-4'', ''LP217198-3''],
     TestValidityHours = 48,
     VaccinationValidityDelayDays = 14,
     VaccineAllowedProducts = [''EU/1/20/1528'', ''EU/1/20/1507''],
     RecoveryValidFromDays = 11,
     RecoveryValidUntilDays = 180 \<rparr>"

definition name_sample :: DCCName where
  "name_sample = \<lparr> StandardizedFamilyName = ''MUSTERMANN'', StandardizedGivenName = ''ERIKA'' \<rparr>"

definition vacc_sample :: DCCVaccination where
  "vacc_sample = \<lparr> vacc_DiseaseTargeted = ''840539006'', MedicinalProduct = ''EU/1/20/1528'',
     DoseNumber = 2, TotalSeriesOfDoses = 2, DateOfVaccination = ''2021-06-01'' \<rparr>"

definition test_sample :: DCCTest where
  "test_sample = \<lparr> test_DiseaseTargeted = ''840539006'', TypeOfTest = ''LP6464-4'',
     TestResult = ''260415000'', DateTimeOfCollection = ''2021-06-01T10:00:00Z'' \<rparr>"

definition rec_sample :: DCCRecovery where
  "rec_sample = \<lparr> rec_DiseaseTargeted = ''840539006'', DateOfFirstPositiveTest = ''2021-06-01'',
     CertificateValidFrom = ''2021-06-20'', CertificateValidUntil = ''2021-09-01'' \<rparr>"

definition dcc_sample :: DCC where
  "dcc_sample = \<lparr> DateOfBirth = ''1964-08-12'', Name = name_sample,
     Vaccinations = [], Tests = [test_sample], Recoveries = [] \<rparr>"

definition hcert_sample :: HealthCertificate where
  "hcert_sample = \<lparr> Issuer = ''DE'', IssuedAt = 1622541600, ExpirationTime = 1625133600,
     hcert_DCC = dcc_sample \<rparr>"

text \<open>
  The sample certificate with a given name that begins with a letter outside ASCII: the
  capital E with an acute accent, the two bytes C3 89 in UTF-8, followed by LODIE.
\<close>

definition name_accented :: DCCName where
  "name_accented = \<lparr> StandardizedFamilyName = ''MUSTERMANN'',
     StandardizedGivenName = [CHR 0xC3, CHR 0x89] @ ''LODIE'' \<rparr>"

definition hcert_accented :: HealthCertificate where
  "hcert_accented = hcert_sample \<lparr> hcert_DCC := dcc_sample \<lparr> Name := name_accented \<rparr> \<rparr>"

section \<open>Properties\<close>

lemmas sample_defs = Parse_sample_def rules_sample_def name_sample_def vacc_sample_def
  test_sample_def rec_sample_def dcc_sample_def hcert_sample_def

lemmas const_defs = HCERT_SPECIMEN_EXPIRATION_TIME_def DISEASE_TARGETED_COVID_19_def
  TEST_RESULT_NOT_DETECTED_def NL_COUNTRY_CODE_def YYYYMMDD_FORMAT_def DOB_EMPTY_VALUE_def
  RFC3339_def

lemmas time_defs = Before_def After_def Add_def Unix_def unixToInternal_def Hour_def
  Truncate_def UTC_def

subsection \<open>Durations and times that do not wrap around\<close>

text \<open>
  A number of hours between \<open>-2562047\<close> and \<open>2562047\<close> times \<^verbatim>\<open>time.Hour\<close> is that many
  hours in nanoseconds: the product fits the 64 bits of a duration.
\<close>

lemma sint_hours:
  fixes h :: "64 word"
  assumes "- 2562047 \<le> sint h" and "sint h \<le> 2562047"
  shows "sint (h * Hour) = sint h * 3600000000000"
proof -
  have "sint (h * Hour) = signed_take_bit 63 (sint h * sint Hour)"
    by (simp add: sint_word_ariths)
  also have "\<dots> = sint h * sint Hour"
    using assms by (intro signed_take_bit_int_eq_self) (simp_all add: Hour_def)
  finally show ?thesis by (simp add: Hour_def)
qed

text \<open>The same for a number of days between \<open>-106751\<close> and \<open>106751\<close>.\<close>

lemma sint_days:
  fixes d :: "64 word"
  assumes "- 106751 \<le> sint d" and "sint d \<le> 106751"
  shows "sint ((d * 24) * Hour) = sint d * 86400000000000"
proof -
  have "sint (d * 24) = signed_take_bit 63 (sint d * sint (24 :: 64 word))"
    by (simp only: sint_word_ariths len_of_numeral_defs) simp
  also have "\<dots> = sint d * 24"
    using assms by (simp add: signed_take_bit_int_eq_self)
  finally have d24: "sint (d * 24) = sint d * 24" .
  then have "- 2562047 \<le> sint (d * 24)" and "sint (d * 24) \<le> 2562047"
    using assms by simp_all
  then have "sint ((d * 24) * Hour) = sint (d * 24) * 3600000000000"
    by (rule sint_hours)
  then show ?thesis by (simp add: d24)
qed

text \<open>
  Up to the second \<open>9223371974719179007\<close> of the Unix era (some 292 billion years
  ahead) \<^verbatim>\<open>time.Unix\<close> does not wrap around, and the times compare as the seconds do.
\<close>

lemma Unix_exact:
  assumes "sint sec \<le> 9223371974719179007"
  shows "Unix sec = (sint sec + 62135596800) * 1000000000"
proof -
  have lo: "- (2 ^ 63) \<le> sint sec"
    using sint_ge [of sec] by simp
  have "sint (sec + unixToInternal) = signed_take_bit 63 (sint sec + sint unixToInternal)"
    by (simp add: sint_word_ariths)
  also have "\<dots> = sint sec + sint unixToInternal"
    using assms lo by (intro signed_take_bit_int_eq_self) (simp_all add: unixToInternal_def)
  finally show ?thesis by (simp add: Unix_def unixToInternal_def)
qed

lemma Before_Unix:
  assumes "sint a \<le> 9223371974719179007" and "sint b \<le> 9223371974719179007"
  shows "Before (Unix a) (Unix b) \<longleftrightarrow> sint a < sint b"
  using assms by (simp add: Unix_exact Before_def)

lemma Unix_epoch_instant:
  assumes "sint sec \<le> 9223371974719179007"
  shows "Unix sec = epoch_instant sec"
  using assms by (simp add: Unix_exact epoch_instant_def)

lemma epoch_instant_less:
  "epoch_instant a < epoch_instant b \<longleftrightarrow> sint a < sint b"
  by (simp add: epoch_instant_def)

subsection \<open>The matches of the date of birth\<close>

lemma FindStringSubmatch_closed: "FindStringSubmatch v = submatch_by_length v"
  by (cases v rule: submatch_by_length.cases)
    (auto simp: FindStringSubmatch_def dateOfBirthRegex_def at_end_def year_pat_def)

lemma FindStringSubmatch_length:
  "length (FindStringSubmatch v) = 4 \<or> FindStringSubmatch v = []"
  unfolding FindStringSubmatch_closed
  by (cases v rule: submatch_by_length.cases) simp_all

lemma parseDateOfBirth_ok_iff:
  "snd (snd (snd (parseDateOfBirth v))) = None \<longleftrightarrow> FindStringSubmatch v \<noteq> []"
  using FindStringSubmatch_length [of v] by (auto simp: parseDateOfBirth_def Let_def)

lemma validateDateOfBirth_ok_iff:
  "validateDateOfBirth v = None \<longleftrightarrow> FindStringSubmatch v \<noteq> []"
  using parseDateOfBirth_ok_iff [of v]
  by (cases "parseDateOfBirth v") (auto simp: validateDateOfBirth_def split: option.splits)

lemma digit_19_20: "digit CHR ''1''" "digit CHR ''9''" "digit CHR ''2''" "digit CHR ''0''"
  by (simp_all add: digit_def)

lemma year_pat_iff:
  "year_pat a b c d \<longleftrightarrow>
     list_all digit [a, b, c, d] \<and> ([a, b] = ''19'' \<or> [a, b] = ''20'')"
  using digit_19_20 by (auto simp: year_pat_def)

lemma submatch_by_length_shape:
  "submatch_by_length v \<noteq> [] \<longleftrightarrow>
     spec_dob_shape v \<and> (v = [] \<or> take 2 v = ''19'' \<or> take 2 v = ''20'')"
proof (cases v rule: submatch_by_length.cases)
  case 1
  then show ?thesis by (simp add: spec_dob_shape_def)
next
  case (2 a b c d)
  then show ?thesis by (simp add: spec_dob_shape_def year_pat_iff)
next
  case (3 a b c d h m1 m2)
  then show ?thesis by (simp add: spec_dob_shape_def year_pat_iff) blast
next
  case (4 a b c d h m1 m2 h' d1 d2)
  then show ?thesis by (simp add: spec_dob_shape_def year_pat_iff) blast
qed (simp_all add: spec_dob_shape_def)

lemma FindStringSubmatch_shape:
  "FindStringSubmatch v \<noteq> [] \<longleftrightarrow>
     spec_dob_shape v \<and> (v = [] \<or> take 2 v = ''19'' \<or> take 2 v = ''20'')"
  by (simp only: FindStringSubmatch_closed submatch_by_length_shape)

lemma FindStringSubmatch_groups:
  assumes "FindStringSubmatch v \<noteq> []"
  shows "two_digits_or_marker
           (if FindStringSubmatch v ! 2 = [] then DOB_EMPTY_VALUE else FindStringSubmatch v ! 2)"
    and "two_digits_or_marker
           (if FindStringSubmatch v ! 3 = [] then DOB_EMPTY_VALUE else FindStringSubmatch v ! 3)"
  using assms unfolding FindStringSubmatch_closed
  by (cases v rule: submatch_by_length.cases;
      simp add: two_digits_or_marker_def split: if_splits)+

lemma buildVerificationDetails_ok:
  assumes "FindStringSubmatch (DateOfBirth (hcert_DCC hcert)) \<noteq> []"
  shows "\<exists>details. buildVerificationDetails hcert isSpecimen = (Some details, None)"
  using assms FindStringSubmatch_length [of "DateOfBirth (hcert_DCC hcert)"]
  by (simp add: buildVerificationDetails_def parseDateOfBirth_def Let_def)

subsection \<open>The steps of \<^verbatim>\<open>validateDCC\<close>\<close>

lemma validateDCC_None_dob:
  assumes "validateDCC Parse dcc rules now = None"
  shows "validateDateOfBirth (DateOfBirth dcc) = None"
  using assms by (simp add: validateDCC_def split: option.splits)

lemma validateDCC_None_amount:
  assumes "validateDCC Parse dcc rules now = None"
  shows "validateStatementAmount dcc = None"
  using assms by (simp add: validateDCC_def split: option.splits)

lemma validateDCC_amount:
  assumes "validateDateOfBirth (DateOfBirth dcc) = None" and "validateName (Name dcc) = None"
    and "validateStatementAmount dcc = Some err"
  shows "validateDCC Parse dcc rules now = Some (WrapPrefix err ''Invalid statement amount'')"
  using assms by (simp add: validateDCC_def)

subsection \<open>Metadata: specimen or temporal checks\<close>

text \<open>
  Claim C4, as the code has it. When the expiration time of a health certificate is the
  reserved value 42, \<^verbatim>\<open>validateHcert\<close> returns specimen = true and no error, whatever
  the issue time and the current time are. For every other certificate whose issue time
  and expiration time are at most the second 9223371974719179007 of the Unix era, the
  last that \<^verbatim>\<open>time.Unix\<close> converts without wrapping around, it returns specimen = false,
  and an error if and only if the expiration second precedes the issue second, or now
  precedes the issue time, or the expiration time precedes now. The three conditions are
  reported by three different errors, tried in that order; with none of them there is
  no error.
\<close>

theorem validateHcert_epoch_seconds:
  "(ExpirationTime hcert = HCERT_SPECIMEN_EXPIRATION_TIME \<longrightarrow>
      validateHcert hcert now = (True, None))
   \<and> (ExpirationTime hcert \<noteq> HCERT_SPECIMEN_EXPIRATION_TIME
        \<and> sint (IssuedAt hcert) \<le> 9223371974719179007
        \<and> sint (ExpirationTime hcert) \<le> 9223371974719179007 \<longrightarrow>
        fst (validateHcert hcert now) = False
      \<and> (snd (validateHcert hcert now) \<noteq> None \<longleftrightarrow>
           sint (ExpirationTime hcert) < sint (IssuedAt hcert)
           \<or> now < epoch_instant (IssuedAt hcert)
           \<or> epoch_instant (ExpirationTime hcert) < now)
      \<and> (snd (validateHcert hcert now) = Some (Errorf ''Cannot be issued after it expires'' [])
           \<longleftrightarrow> sint (ExpirationTime hcert) < sint (IssuedAt hcert))
      \<and> (snd (validateHcert hcert now) = Some (Errorf ''Is issued before the current time'' [])
           \<longleftrightarrow> \<not> sint (ExpirationTime hcert) < sint (IssuedAt hcert)
               \<and> now < epoch_instant (IssuedAt hcert))
      \<and> (snd (validateHcert hcert now) =
            Some (Errorf ''Is not valid anymore; was valid until %d''
                    [Int64 (ExpirationTime hcert)])
           \<longleftrightarrow> \<not> sint (ExpirationTime hcert) < sint (IssuedAt hcert)
               \<and> \<not> now < epoch_instant (IssuedAt hcert)
               \<and> epoch_instant (ExpirationTime hcert) < now))"
proof (rule conjI; rule impI)
  assume "ExpirationTime hcert = HCERT_SPECIMEN_EXPIRATION_TIME"
  then show "validateHcert hcert now = (True, None)"
    by (simp add: validateHcert_def)
next
  assume h: "ExpirationTime hcert \<noteq> HCERT_SPECIMEN_EXPIRATION_TIME
        \<and> sint (IssuedAt hcert) \<le> 9223371974719179007
        \<and> sint (ExpirationTime hcert) \<le> 9223371974719179007"
  then have i: "Unix (IssuedAt hcert) = epoch_instant (IssuedAt hcert)"
    and e: "Unix (ExpirationTime hcert) = epoch_instant (ExpirationTime hcert)"
    by (simp_all add: Unix_epoch_instant)
  from h show "fst (validateHcert hcert now) = False
      \<and> (snd (validateHcert hcert now) \<noteq> None \<longleftrightarrow>
           sint (ExpirationTime hcert) < sint (IssuedAt hcert)
           \<or> now < epoch_instant (IssuedAt hcert)
           \<or> epoch_instant (ExpirationTime hcert) < now)
      \<and> (snd (validateHcert hcert now) = Some (Errorf ''Cannot be issued after it expires'' [])
           \<longleftrightarrow> sint (ExpirationTime hcert) < sint (IssuedAt hcert))
      \<and> (snd (validateHcert hcert now) = Some (Errorf ''Is issued before the current time'' [])
           \<longleftrightarrow> \<not> sint (ExpirationTime hcert) < sint (IssuedAt hcert)
               \<and> now < epoch_instant (IssuedAt hcert))
      \<and> (snd (validateHcert hcert now) =
            Some (Errorf ''Is not valid anymore; was valid until %d''
                    [Int64 (ExpirationTime hcert)])
           \<longleftrightarrow> \<not> sint (ExpirationTime hcert) < sint (IssuedAt hcert)
               \<and> \<not> now < epoch_instant (IssuedAt hcert)
               \<and> epoch_instant (ExpirationTime hcert) < now)"
    by (simp add: validateHcert_def Let_def Before_def i e epoch_instant_less)
qed

text \<open>
  A specimen issued in June 2021 is accepted in December 2021 without any check of
  time. The sample certificate, valid from June 1 to July 1, 2021, is accepted on June 3
  and refused as expired on December 31; on January 1, 2021 it is refused as issued after
  the current time; with an expiration on January 1, 2021, before its issue, it is refused
  as expiring before it is issued.
\<close>

theorem validateHcert_epoch_seconds_witness:
  "validateHcert (hcert_sample \<lparr> ExpirationTime := 42 \<rparr>) (epoch_instant 1640908800)
     = (True, None)
   \<and> validateHcert hcert_sample (epoch_instant 1622678400) = (False, None)
   \<and> validateHcert hcert_sample (epoch_instant 1640908800) =
       (False, Some (Errorf ''Is not valid anymore; was valid until %d'' [Int64 1625133600]))
   \<and> validateHcert (hcert_sample \<lparr> ExpirationTime := 1609459200 \<rparr>)
       (epoch_instant 1622678400) =
       (False, Some (Errorf ''Cannot be issued after it expires'' []))
   \<and> validateHcert hcert_sample (epoch_instant 1609459200) =
       (False, Some (Errorf ''Is issued before the current time'' []))"
  using validateHcert_epoch_seconds
      [of "hcert_sample \<lparr> ExpirationTime := 42 \<rparr>" "epoch_instant 1640908800"]
    validateHcert_epoch_seconds [of hcert_sample "epoch_instant 1622678400"]
    validateHcert_epoch_seconds [of hcert_sample "epoch_instant 1640908800"]
    validateHcert_epoch_seconds
      [of "hcert_sample \<lparr> ExpirationTime := 1609459200 \<rparr>" "epoch_instant 1622678400"]
    validateHcert_epoch_seconds [of hcert_sample "epoch_instant 1609459200"]
  by (simp add: sample_defs const_defs epoch_instant_def prod_eq_iff)

text \<open>
  Without the bound the statement fails. An issue time of 9223371974719179008 seconds is
  the first that wraps around in the 64-bit sum of \<^verbatim>\<open>time.Unix\<close> and becomes a time
  far in the past. The sample certificate with that issue time expires before it is
  issued, and is issued after June 3, 2021, which are two of the three conditions of an
  error; the code accepts it on that day.
\<close>

theorem validateHcert_wrap_counterexample:
  "validateHcert (hcert_sample \<lparr> IssuedAt := 9223371974719179008 \<rparr>)
       (epoch_instant 1622678400)
     = (False, None)
   \<and> ExpirationTime (hcert_sample \<lparr> IssuedAt := 9223371974719179008 \<rparr>)
       \<noteq> HCERT_SPECIMEN_EXPIRATION_TIME
   \<and> sint (ExpirationTime (hcert_sample \<lparr> IssuedAt := 9223371974719179008 \<rparr>))
       < sint (IssuedAt (hcert_sample \<lparr> IssuedAt := 9223371974719179008 \<rparr>))
   \<and> epoch_instant 1622678400
       < epoch_instant (IssuedAt (hcert_sample \<lparr> IssuedAt := 9223371974719179008 \<rparr>))"
  by (simp add: validateHcert_def sample_defs const_defs time_defs epoch_instant_def)

subsection \<open>Vaccination: the number of doses\<close>



subsection \<open>Test: the validity window\<close>

text \<open>
  Claim C1, as the code has it. For a test statement with the COVID-19 disease code, an
  allowed type, the result "not detected" and a collection time that parses, and for a
  validity between \<open>-2562047\<close> and \<open>2562047\<close> hours, \<^verbatim>\<open>validateTest\<close> succeeds if and
  only if now lies in the closed window from the collection time to the collection time
  plus the validity: the instant at which the window ends is still accepted, and only a
  later one is refused.
\<close>

theorem validateTest_closed_window:
  assumes "test_DiseaseTargeted test = DISEASE_TARGETED_COVID_19"
    and "containsString (TestAllowedTypes rules) (TypeOfTest test)"
    and "TestResult test = TEST_RESULT_NOT_DETECTED"
    and "Parse RFC3339 (DateTimeOfCollection test) = Some collectionTime"
    and "- 2562047 \<le> sint (TestValidityHours rules)"
    and "sint (TestValidityHours rules) \<le> 2562047"
  shows "validateTest Parse test rules now = None \<longleftrightarrow>
           collectionTime \<le> now
           \<and> now \<le> collectionTime + sint (TestValidityHours rules) * 3600000000000"
  using assms
  by (auto simp add: validateTest_def Let_def Before_def Add_def sint_hours)

text \<open>
  With a validity of 48 hours, a test is accepted 10 hours and exactly 48 hours after
  the collection, and refused 50 hours after it.
\<close>

theorem validateTest_closed_window_witness:
  "validateTest Parse_sample test_sample rules_sample (Unix 1622541600 + 10 * 3600000000000)
     = None
   \<and> validateTest Parse_sample test_sample rules_sample (Unix 1622541600 + 48 * 3600000000000)
     = None
   \<and> validateTest Parse_sample test_sample rules_sample (Unix 1622541600 + 50 * 3600000000000)
     \<noteq> None"
  using validateTest_closed_window [of test_sample rules_sample Parse_sample "Unix 1622541600"
      "Unix 1622541600 + 10 * 3600000000000"]
    validateTest_closed_window [of test_sample rules_sample Parse_sample "Unix 1622541600"
      "Unix 1622541600 + 48 * 3600000000000"]
    validateTest_closed_window [of test_sample rules_sample Parse_sample "Unix 1622541600"
      "Unix 1622541600 + 50 * 3600000000000"]
  by (simp add: sample_defs const_defs)

text \<open>
  The half-open window of the specification fails in two places. Exactly 48 hours after
  the collection, with a validity of 48 hours, the code accepts the test although the
  instant is outside the half-open window. And a validity of 2562048 hours no longer
  fits a duration: the product with \<^verbatim>\<open>time.Hour\<close> wraps around to a negative duration,
  and the code refuses a test taken 10 hours ago although the instant is inside the
  window.
\<close>

theorem validateTest_half_open_counterexample:
  "validateTest Parse_sample test_sample rules_sample (Unix 1622541600 + 48 * 3600000000000)
     = None
   \<and> \<not> spec_test_window (Unix 1622541600) 48 (Unix 1622541600 + 48 * 3600000000000)
   \<and> validateTest Parse_sample test_sample (rules_sample \<lparr> TestValidityHours := 2562048 \<rparr>)
       (Unix 1622541600 + 10 * 3600000000000)
     = Some (Errorf ''Time of collection is more than %s ago''
          [DurationString (2562048 * Hour)])
   \<and> spec_test_window (Unix 1622541600) 2562048 (Unix 1622541600 + 10 * 3600000000000)"
  by (simp add: validateTest_def sample_defs const_defs time_defs spec_test_window_def)

subsection \<open>Recovery: the validity window\<close>

text \<open>
  Claim C5, as the code has it. For a recovery statement with the COVID-19 disease code
  and a date of first positive test that parses, and for policy offsets between
  \<open>-106751\<close> and \<open>106751\<close> days, \<^verbatim>\<open>validateRecovery\<close> computes the window from the test
  date plus the valid-from days to the test date plus the valid-until days, replaces the
  start by the valid-from date of the certificate when that parses and is later, and
  the end by the valid-until date of the certificate when that parses and is earlier;
  it succeeds unless the end precedes the start, or now precedes the start, or the end
  precedes now.
\<close>

theorem validateRecovery_window:
  assumes "rec_DiseaseTargeted rec = DISEASE_TARGETED_COVID_19"
    and "Parse YYYYMMDD_FORMAT (DateOfFirstPositiveTest rec) = Some testDate"
    and "- 106751 \<le> sint (RecoveryValidFromDays rules)"
    and "sint (RecoveryValidFromDays rules) \<le> 106751"
    and "- 106751 \<le> sint (RecoveryValidUntilDays rules)"
    and "sint (RecoveryValidUntilDays rules) \<le> 106751"
  shows "validateRecovery Parse rec rules now = None \<longleftrightarrow>
           spec_recovery_valid
             (spec_recovery_window testDate
                (sint (RecoveryValidFromDays rules)) (sint (RecoveryValidUntilDays rules))
                (Parse YYYYMMDD_FORMAT (CertificateValidFrom rec))
                (Parse YYYYMMDD_FORMAT (CertificateValidUntil rec)))
             now"
proof -
  have f: "Add testDate ((RecoveryValidFromDays rules * 24) * Hour) =
      testDate + sint (RecoveryValidFromDays rules) * 86400000000000"
    using assms(3,4) by (simp add: Add_def sint_days)
  have u: "Add testDate ((RecoveryValidUntilDays rules * 24) * Hour) =
      testDate + sint (RecoveryValidUntilDays rules) * 86400000000000"
    using assms(5,6) by (simp add: Add_def sint_days)
  show ?thesis
    using assms(1,2)
    by (simp add: validateRecovery_def Let_def f u Before_def After_def
        spec_recovery_valid_def spec_recovery_window_def split: option.splits)
qed

text \<open>
  A first positive test of June 1, 2021 with offsets of 11 and 180 days gives the window
  from June 12 to November 28; the certificate narrows it to June 20 until September 1.
  The statement is valid on July 1 and not yet valid on June 12.
\<close>

theorem validateRecovery_window_witness:
  "validateRecovery Parse_sample rec_sample rules_sample (Unix 1625097600) = None
   \<and> spec_recovery_window (Unix 1622505600) 11 180
        (Some (Unix 1624147200)) (Some (Unix 1630454400))
       = (Unix 1624147200, Unix 1630454400)
   \<and> validateRecovery Parse_sample rec_sample rules_sample (Unix 1623456000) \<noteq> None"
  using validateRecovery_window
      [of rec_sample Parse_sample "Unix 1622505600" rules_sample "Unix 1625097600"]
    validateRecovery_window
      [of rec_sample Parse_sample "Unix 1622505600" rules_sample "Unix 1623456000"]
  by (simp add: sample_defs const_defs spec_recovery_valid_def spec_recovery_window_def
      Unix_def unixToInternal_def)

text \<open>
  A valid-until offset of 106752 days no longer fits a duration: the product with
  \<^verbatim>\<open>time.Hour\<close> wraps around to a negative duration, the end computed falls before the
  start, and the code refuses on July 1, 2021 a statement that the window of the
  specification, from June 12, 2021 to the test date plus 106752 days, holds valid.
\<close>

theorem validateRecovery_days_counterexample:
  "validateRecovery Parse_sample
      (rec_sample \<lparr> CertificateValidFrom := [], CertificateValidUntil := [] \<rparr>)
      (rules_sample \<lparr> RecoveryValidUntilDays := 106752 \<rparr>) (Unix 1625097600)
     = Some (Errorf ''Valid until cannot be before valid from'' [])
   \<and> spec_recovery_valid (spec_recovery_window (Unix 1622505600) 11 106752 None None)
       (Unix 1625097600)"
  by (simp add: validateRecovery_def sample_defs const_defs time_defs spec_recovery_valid_def
      spec_recovery_window_def)

subsection \<open>The number of statements\<close>

text \<open>
  Claim C2, as the code has it. The check of the number of statements fails if and only
  if the vaccinations, tests and recoveries of the DCC do not add up to exactly 1. With
  more than one statement the error names the three counts; with none it is the fixed
  message that there are no statements, which carries no count. The failure does not
  depend on the statements themselves, on the rules or on the time: \<^verbatim>\<open>validateDCC\<close>
  never succeeds then, and once the date of birth and the name have passed it returns
  the error of the check under the prefix of this step.
\<close>

theorem validateStatementAmount_exactly_one:
  fixes dcc :: DCC
  defines "v \<equiv> length (Vaccinations dcc)" and "t \<equiv> length (Tests dcc)"
    and "r \<equiv> length (Recoveries dcc)"
  shows "(validateStatementAmount dcc \<noteq> None \<longleftrightarrow> v + t + r \<noteq> 1)
    \<and> (v + t + r = 0 \<longrightarrow> validateStatementAmount dcc =
          Some (Errorf ''Contains no vaccination, test or recovery statements'' []))
    \<and> (v + t + r > 1 \<longrightarrow>
          (\<exists>err. validateStatementAmount dcc = Some err \<and> names_counts err v t r))
    \<and> (v + t + r \<noteq> 1 \<longrightarrow> validateDCC Parse dcc rules now \<noteq> None)
    \<and> (v + t + r \<noteq> 1 \<and> validateDateOfBirth (DateOfBirth dcc) = None
          \<and> validateName (Name dcc) = None \<longrightarrow>
        (\<exists>err. validateStatementAmount dcc = Some err
           \<and> validateDCC Parse dcc rules now =
               Some (WrapPrefix err ''Invalid statement amount'')))"
proof -
  define n where "n = v + t + r"
  have unfold: "validateStatementAmount dcc =
      (if n = 0 then Some (Errorf ''Contains no vaccination, test or recovery statements'' [])
       else if n > 1 then Some (Errorf
         ''Contains too many statements (%d vaccinations, %d tests and %d recoveries)''
         [Count v, Count t, Count r])
       else None)"
    by (simp only: validateStatementAmount_def Let_def n_def v_def t_def r_def)
  have n: "v + t + r = n"
    by (simp only: n_def)
  have a: "validateStatementAmount dcc \<noteq> None \<longleftrightarrow> v + t + r \<noteq> 1"
    unfolding unfold n by (cases "n = 0"; cases "n > 1") simp_all
  have b: "v + t + r = 0 \<longrightarrow> validateStatementAmount dcc =
          Some (Errorf ''Contains no vaccination, test or recovery statements'' [])"
    unfolding unfold n by simp
  have c: "v + t + r > 1 \<longrightarrow>
      (\<exists>err. validateStatementAmount dcc = Some err \<and> names_counts err v t r)"
    unfolding unfold n by (simp add: names_counts_def)
  have d: "v + t + r \<noteq> 1 \<longrightarrow> validateDCC Parse dcc rules now \<noteq> None"
  proof
    assume "v + t + r \<noteq> 1"
    with a have "validateStatementAmount dcc \<noteq> None"
      by simp
    then show "validateDCC Parse dcc rules now \<noteq> None"
      by (rule contrapos_nn) (rule validateDCC_None_amount)
  qed
  have e: "v + t + r \<noteq> 1 \<and> validateDateOfBirth (DateOfBirth dcc) = None
          \<and> validateName (Name dcc) = None \<longrightarrow>
        (\<exists>err. validateStatementAmount dcc = Some err
           \<and> validateDCC Parse dcc rules now =
               Some (WrapPrefix err ''Invalid statement amount''))"
  proof
    assume h: "v + t + r \<noteq> 1 \<and> validateDateOfBirth (DateOfBirth dcc) = None
          \<and> validateName (Name dcc) = None"
    with a obtain err where err: "validateStatementAmount dcc = Some err"
      by auto
    with h have "validateDCC Parse dcc rules now =
        Some (WrapPrefix err ''Invalid statement amount'')"
      by (simp add: validateDCC_amount)
    with err show "\<exists>err. validateStatementAmount dcc = Some err
           \<and> validateDCC Parse dcc rules now =
               Some (WrapPrefix err ''Invalid statement amount'')"
      by simp
  qed
  from a b c d e show ?thesis by (intro conjI)
qed

text \<open>
  Two vaccinations and a test, each of them valid on its own, are too many statements;
  a DCC without any statement is refused with the fixed message; the sample DCC with
  its one test passes the check.
\<close>

theorem validateStatementAmount_exactly_one_witness:
  "validateDCC Parse_sample (dcc_sample \<lparr> Vaccinations := [vacc_sample, vacc_sample] \<rparr>)
       rules_sample (Unix 1625097600)
     = Some (WrapPrefix (Errorf
         ''Contains too many statements (%d vaccinations, %d tests and %d recoveries)''
         [Count 2, Count 1, Count 0]) ''Invalid statement amount'')
   \<and> validateDCC Parse_sample (dcc_sample \<lparr> Tests := [] \<rparr>) rules_sample (Unix 1625097600)
     = Some (WrapPrefix (Errorf ''Contains no vaccination, test or recovery statements'' [])
         ''Invalid statement amount'')
   \<and> validateStatementAmount dcc_sample = None"
  using validateStatementAmount_exactly_one
      [of "dcc_sample \<lparr> Vaccinations := [vacc_sample, vacc_sample] \<rparr>" Parse_sample
        rules_sample "Unix 1625097600"]
    validateStatementAmount_exactly_one
      [of "dcc_sample \<lparr> Tests := [] \<rparr>" Parse_sample rules_sample "Unix 1625097600"]
    validateStatementAmount_exactly_one
      [of dcc_sample Parse_sample rules_sample "Unix 1625097600"]
  by (simp add: validateStatementAmount_def validateDateOfBirth_def parseDateOfBirth_def
      FindStringSubmatch_closed
      validateName_def year_pat_def digit_def sample_defs)

text \<open>
  For a DCC without statements the error of the check is the fixed message: it has no
  arguments, and so does not name the counts, which are all zero here.
\<close>

theorem validateStatementAmount_zero_counterexample:
  "validateStatementAmount (dcc_sample \<lparr> Tests := [] \<rparr>)
     = Some (Errorf ''Contains no vaccination, test or recovery statements'' [])
   \<and> \<not> names_counts (Errorf ''Contains no vaccination, test or recovery statements'' []) 0 0 0"
  by (simp add: validateStatementAmount_def names_counts_def sample_defs)

subsection \<open>The shapes of a date of birth\<close>

text \<open>
  Claim C6, as the code has it. \<^verbatim>\<open>parseDateOfBirth\<close> and \<^verbatim>\<open>validateDateOfBirth\<close> accept
  exactly the empty string, a year of four digits that begins with 19 or 20, such a year
  followed by a hyphen and two digits, and such a year followed by a hyphen and two
  digits twice; every other value is rejected with an error.
\<close>

theorem parseDateOfBirth_accepts_exactly:
  "(snd (snd (snd (parseDateOfBirth v))) = None \<longleftrightarrow>
      spec_dob_shape v \<and> (v = [] \<or> take 2 v = ''19'' \<or> take 2 v = ''20''))
   \<and> (validateDateOfBirth v = None \<longleftrightarrow>
      spec_dob_shape v \<and> (v = [] \<or> take 2 v = ''19'' \<or> take 2 v = ''20''))"
  by (simp only: parseDateOfBirth_ok_iff validateDateOfBirth_ok_iff FindStringSubmatch_shape)

text \<open>A year and a month are accepted; a year of the 22nd century is not.\<close>

theorem parseDateOfBirth_accepts_exactly_witness:
  "parseDateOfBirth ''1964-08'' = (''1964'', ''08'', [], None)
   \<and> spec_dob_shape ''1964-08''
   \<and> validateDateOfBirth ''2150-01-01'' \<noteq> None"
  using parseDateOfBirth_accepts_exactly [of "''1964-08''"]
    parseDateOfBirth_accepts_exactly [of "''2150-01-01''"]
  by (simp add: parseDateOfBirth_def
      FindStringSubmatch_closed year_pat_def digit_def)

text \<open>
  The year 1850 has the shape of four digits, which the specification accepts, and is
  rejected by both functions.
\<close>

theorem parseDateOfBirth_year_counterexample:
  "spec_dob_shape ''1850''
   \<and> parseDateOfBirth ''1850'' = ([], [], [], Some (Errorf ''Did not conform to regex'' []))
   \<and> validateDateOfBirth ''1850'' =
       Some (WrapPrefix (Errorf ''Did not conform to regex'' []) ''Invalid date of birth'')"
  by (simp add: spec_dob_shape_def digit_def parseDateOfBirth_def
      FindStringSubmatch_closed validateDateOfBirth_def
      year_pat_def)

subsection \<open>Certificates of the Dutch issuer\<close>

text \<open>
  Claim C7. When the signature verifier returns a certificate whose issuer is "NL",
  \<^verbatim>\<open>verifyEuropean\<close> returns no details, the flag of an NL DCC and no error. The result
  is the same for every content of the certificate, every set of rules and every time:
  neither the metadata nor the DCC is validated.
\<close>

theorem verifyEuropean_NL_pass_through:
  assumes "VerifyQREncoded proofQREncoded = Inr hcert"
    and "Issuer hcert = NL_COUNTRY_CODE"
  shows "verifyEuropean VerifyQREncoded Parse proofQREncoded rules now = (None, True, None)"
  using assms by (simp add: verifyEuropean_def)

text \<open>
  A Dutch certificate that has expired and holds no statement, so that both validations
  would refuse it, passes through.
\<close>

theorem verifyEuropean_NL_pass_through_witness:
  "verifyEuropean
       (\<lambda>p. Inr (hcert_sample \<lparr> Issuer := ''NL'', hcert_DCC := dcc_sample \<lparr> Tests := [] \<rparr> \<rparr>))
       Parse_sample [] rules_sample (Unix 1640908800) = (None, True, None)
   \<and> snd (validateHcert
            (hcert_sample \<lparr> Issuer := ''NL'', hcert_DCC := dcc_sample \<lparr> Tests := [] \<rparr> \<rparr>)
            (Unix 1640908800)) \<noteq> None
   \<and> validateDCC Parse_sample (dcc_sample \<lparr> Tests := [] \<rparr>) rules_sample (Unix 1640908800)
       \<noteq> None"
  using verifyEuropean_NL_pass_through
    [of "\<lambda>p. Inr (hcert_sample \<lparr> Issuer := ''NL'', hcert_DCC := dcc_sample \<lparr> Tests := [] \<rparr> \<rparr>)"
      "[]" "hcert_sample \<lparr> Issuer := ''NL'', hcert_DCC := dcc_sample \<lparr> Tests := [] \<rparr> \<rparr>"
      Parse_sample rules_sample "Unix 1640908800"]
  by (simp add: validateHcert_def validateDCC_def validateStatementAmount_def
      validateDateOfBirth_def parseDateOfBirth_def
      FindStringSubmatch_closed validateName_def year_pat_def digit_def
      sample_defs const_defs time_defs)

subsection \<open>The verification details\<close>

text \<open>
  What the details hold of the names and of the date of birth, byte by byte: every value
  of \<^verbatim>\<open>VerificationDetails\<close> that \<^verbatim>\<open>buildVerificationDetails\<close> returns holds at most one
  byte of each name, the first byte of the standardized name when there is one and
  nothing otherwise, and a birth month and a birth day that are each two ASCII digits or
  the marker "XX", and never empty.
\<close>

lemma buildVerificationDetails_bytes:
  assumes "buildVerificationDetails hcert isSpecimen = (Some details, err)"
  shows "length (FirstNameInitial details) \<le> 1
    \<and> length (LastNameInitial details) \<le> 1
    \<and> FirstNameInitial details = take 1 (StandardizedGivenName (Name (hcert_DCC hcert)))
    \<and> LastNameInitial details = take 1 (StandardizedFamilyName (Name (hcert_DCC hcert)))
    \<and> two_digits_or_marker (BirthMonth details)
    \<and> two_digits_or_marker (BirthDay details)
    \<and> BirthMonth details \<noteq> [] \<and> BirthDay details \<noteq> []"
proof -
  let ?v = "DateOfBirth (hcert_DCC hcert)"
  from assms have ok: "FindStringSubmatch ?v \<noteq> []"
    using FindStringSubmatch_length [of ?v]
    by (auto simp: buildVerificationDetails_def parseDateOfBirth_def Let_def split: if_splits)
  then have len: "length (FindStringSubmatch ?v) = 4"
    using FindStringSubmatch_length [of ?v] by simp
  from assms len have d: "details = \<lparr> CredentialVersion = ''1'',
      IsSpecimen = (if isSpecimen then ''1'' else ''0''),
      IssuerCountryCode = [],
      FirstNameInitial = take 1 (StandardizedGivenName (Name (hcert_DCC hcert))),
      LastNameInitial = take 1 (StandardizedFamilyName (Name (hcert_DCC hcert))),
      BirthDay = (if FindStringSubmatch ?v ! 3 = [] then DOB_EMPTY_VALUE
                  else FindStringSubmatch ?v ! 3),
      BirthMonth = (if FindStringSubmatch ?v ! 2 = [] then DOB_EMPTY_VALUE
                    else FindStringSubmatch ?v ! 2) \<rparr>"
    by (auto simp: buildVerificationDetails_def parseDateOfBirth_def Let_def)
  have m: "two_digits_or_marker (BirthMonth details)"
    and dd: "two_digits_or_marker (BirthDay details)"
    using FindStringSubmatch_groups [OF ok] by (simp_all add: d)
  have ne: "\<And>s. two_digits_or_marker s \<Longrightarrow> s \<noteq> []"
    by (auto simp: two_digits_or_marker_def DOB_EMPTY_VALUE_def)
  show ?thesis
    using m dd ne [OF m] ne [OF dd] by (simp add: d)
qed

text \<open>The details of the sample certificate: the initials E and M, born on 12-08.\<close>

lemma buildVerificationDetails_bytes_sample:
  "buildVerificationDetails hcert_sample False =
     (Some \<lparr> CredentialVersion = ''1'', IsSpecimen = ''0'', IssuerCountryCode = [],
        FirstNameInitial = ''E'', LastNameInitial = ''M'', BirthDay = ''12'',
        BirthMonth = ''08'' \<rparr>, None)
   \<and> two_digits_or_marker ''08'' \<and> two_digits_or_marker ''12''"
  using buildVerificationDetails_bytes [of hcert_sample False
      "\<lparr> CredentialVersion = ''1'', IsSpecimen = ''0'', IssuerCountryCode = [],
        FirstNameInitial = ''E'', LastNameInitial = ''M'', BirthDay = ''12'',
        BirthMonth = ''08'' \<rparr>" None]
  by (simp add: buildVerificationDetails_def parseDateOfBirth_def
      FindStringSubmatch_closed year_pat_def digit_def
      sample_defs const_defs)

text \<open>
  Claim C8 takes the initial of a name to be the first character of the standardized
  name, and so does the comment in the source, "Get first character of name(s)". The
  code takes the first byte, \<^verbatim>\<open>[0:1]\<close> of a Go string, and no check restricts the names
  to ASCII: \<^verbatim>\<open>validateName\<close> only refuses two empty names. For the sample certificate
  with the given name that begins with an accented E, the whole verification succeeds,
  and the first-name initial of the details is the lone byte C3, the first of the two
  bytes of that letter: a fragment that is no character, where the first character of
  the name is the two bytes C3 89. The family name, in ASCII, gives its first letter, and
  the birth month and day are two digits each.
\<close>

theorem buildVerificationDetails_first_byte:
  "verifyEuropean (\<lambda>p. Inr hcert_accented) Parse_sample [] rules_sample (Unix 1622577600)
     = (Some \<lparr> CredentialVersion = ''1'', IsSpecimen = ''0'', IssuerCountryCode = [],
          FirstNameInitial = [CHR 0xC3], LastNameInitial = ''M'', BirthDay = ''12'',
          BirthMonth = ''08'' \<rparr>, False, None)
   \<and> buildVerificationDetails hcert_accented False
     = (Some \<lparr> CredentialVersion = ''1'', IsSpecimen = ''0'', IssuerCountryCode = [],
          FirstNameInitial = [CHR 0xC3], LastNameInitial = ''M'', BirthDay = ''12'',
          BirthMonth = ''08'' \<rparr>, None)
   \<and> first_character (StandardizedGivenName (Name (hcert_DCC hcert_accented)))
     = [CHR 0xC3, CHR 0x89]
   \<and> first_character (StandardizedFamilyName (Name (hcert_DCC hcert_accented))) = ''M''"
  by (simp add: verifyEuropean_def validateHcert_def validateDCC_def
      validateStatementAmount_def validateDateOfBirth_def parseDateOfBirth_def
      FindStringSubmatch_closed validateName_def validateTest_def
      buildVerificationDetails_def year_pat_def digit_def
      hcert_accented_def name_accented_def first_character_def utf8_width_def
      continuation_def sample_defs const_defs time_defs)

text \<open>
  Claim C9. On a certificate whose DCC \<^verbatim>\<open>validateDCC\<close> has accepted,
  \<^verbatim>\<open>buildVerificationDetails\<close> returns details and no error, for either value of the
  specimen flag: the date of birth that it parses again has been validated already. So
  when \<^verbatim>\<open>verifyEuropean\<close> returns without an error and without the flag of an NL DCC,
  the details it returns are not nil.
\<close>

theorem buildVerificationDetails_after_validateDCC:
  "(validateDCC Parse (hcert_DCC hcert) rules now = None \<longrightarrow>
      (\<exists>details. buildVerificationDetails hcert isSpecimen = (Some details, None)))
   \<and> (verifyEuropean VerifyQREncoded Parse proofQREncoded rules now = (result, False, None)
        \<longrightarrow> result \<noteq> None)"
proof (intro conjI impI)
  assume "validateDCC Parse (hcert_DCC hcert) rules now = None"
  then have "FindStringSubmatch (DateOfBirth (hcert_DCC hcert)) \<noteq> []"
    using validateDCC_None_dob validateDateOfBirth_ok_iff by blast
  then show "\<exists>details. buildVerificationDetails hcert isSpecimen = (Some details, None)"
    by (rule buildVerificationDetails_ok)
next
  assume v: "verifyEuropean VerifyQREncoded Parse proofQREncoded rules now
      = (result, False, None)"
  show "result \<noteq> None"
  proof (cases "VerifyQREncoded proofQREncoded")
    case (Inl err)
    with v show ?thesis by (simp add: verifyEuropean_def)
  next
    case (Inr h)
    show ?thesis
    proof (cases "validateDCC Parse (hcert_DCC h) rules now")
      case None
      then have "FindStringSubmatch (DateOfBirth (hcert_DCC h)) \<noteq> []"
        using validateDCC_None_dob validateDateOfBirth_ok_iff by blast
      then obtain details where
        "buildVerificationDetails h (fst (validateHcert h now)) = (Some details, None)"
        using buildVerificationDetails_ok by blast
      with v Inr None show ?thesis
        by (cases "validateHcert h now")
          (auto simp: verifyEuropean_def split: if_splits option.splits)
    next
      case (Some err)
      with v Inr show ?thesis
        by (cases "validateHcert h now")
          (auto simp: verifyEuropean_def split: if_splits option.splits)
    qed
  qed
qed

text \<open>
  The sample certificate, a German test certificate, is verified ten hours after the
  collection: its DCC is accepted and the details are returned.
\<close>

theorem buildVerificationDetails_after_validateDCC_witness:
  "validateDCC Parse_sample (hcert_DCC hcert_sample) rules_sample (Unix 1622577600) = None
   \<and> verifyEuropean (\<lambda>p. Inr hcert_sample) Parse_sample [] rules_sample (Unix 1622577600)
     = (Some \<lparr> CredentialVersion = ''1'', IsSpecimen = ''0'', IssuerCountryCode = [],
          FirstNameInitial = ''E'', LastNameInitial = ''M'', BirthDay = ''12'',
          BirthMonth = ''08'' \<rparr>, False, None)"
  using buildVerificationDetails_after_validateDCC
    [of Parse_sample hcert_sample rules_sample "Unix 1622577600" False
      "\<lambda>p. Inr hcert_sample" "[]"
      "Some \<lparr> CredentialVersion = ''1'', IsSpecimen = ''0'', IssuerCountryCode = [],
          FirstNameInitial = ''E'', LastNameInitial = ''M'', BirthDay = ''12'',
          BirthMonth = ''08'' \<rparr>"]
  by (simp add: verifyEuropean_def validateHcert_def validateDCC_def
      validateStatementAmount_def validateDateOfBirth_def parseDateOfBirth_def
      FindStringSubmatch_closed
      validateName_def validateTest_def buildVerificationDetails_def year_pat_def digit_def
      sample_defs const_defs time_defs)

text \<open>
  Claim C10. The date of birth is not checked against the calendar: the value
  "1990-13-45", with a month 13 and a day 45, is parsed and validated without an
  error, and \<^verbatim>\<open>buildVerificationDetails\<close> copies "13" and "45" into the birth month and
  the birth day as they are.
\<close>

theorem parseDateOfBirth_no_calendar_check:
  "parseDateOfBirth ''1990-13-45'' = (''1990'', ''13'', ''45'', None)
   \<and> validateDateOfBirth ''1990-13-45'' = None
   \<and> (\<exists>details. buildVerificationDetails
          (hcert_sample \<lparr> hcert_DCC := dcc_sample \<lparr> DateOfBirth := ''1990-13-45'' \<rparr> \<rparr>) False
            = (Some details, None)
        \<and> BirthMonth details = ''13'' \<and> BirthDay details = ''45'')"
  by (simp add: parseDateOfBirth_def
      FindStringSubmatch_closed validateDateOfBirth_def buildVerificationDetails_def
      year_pat_def digit_def sample_defs const_defs)

end
